theory Spec2Isabelle
  imports Complex_Main "HOL-Library.Sublist" "HOL-Library.AList" "HOL-Library.Char_ord"
    "HOL-Library.List_Lexorder"
begin

section \<open>Text and bytes\<close>

text \<open>
  A Python \<open>bytes\<close> value is a \<^typ>\<open>string\<close> (a list of 8-bit characters).  A
  Python \<open>str\<close> is represented by its UTF-8 encoding, again a \<^typ>\<open>string\<close>:
  \<open>bytes.decode("utf-8")\<close> then checks that the bytes are well-formed UTF-8 and
  keeps them, and raises \<open>UnicodeDecodeError\<close> otherwise.  Substring tests against
  ASCII patterns, emptiness and concatenation agree on the two views of a text.
\<close>

definition is_cont :: "nat \<Rightarrow> bool" where
  "is_cont b = (0x80 \<le> b \<and> b \<le> 0xBF)"

fun utf8_valid :: "nat list \<Rightarrow> bool" where
  "utf8_valid [] = True"
| "utf8_valid (b # bs) =
     (if b < 0x80 then utf8_valid bs
      else if 0xC2 \<le> b \<and> b \<le> 0xDF then
        (case bs of c1 # r \<Rightarrow> is_cont c1 \<and> utf8_valid r | _ \<Rightarrow> False)
      else if 0xE0 \<le> b \<and> b \<le> 0xEF then
        (case bs of c1 # c2 # r \<Rightarrow>
           (if b = 0xE0 then 0xA0 \<le> c1 \<and> c1 \<le> 0xBF
            else if b = 0xED then 0x80 \<le> c1 \<and> c1 \<le> 0x9F
            else is_cont c1) \<and> is_cont c2 \<and> utf8_valid r
         | _ \<Rightarrow> False)
      else if 0xF0 \<le> b \<and> b \<le> 0xF4 then
        (case bs of c1 # c2 # c3 # r \<Rightarrow>
           (if b = 0xF0 then 0x90 \<le> c1 \<and> c1 \<le> 0xBF
            else if b = 0xF4 then 0x80 \<le> c1 \<and> c1 \<le> 0x8F
            else is_cont c1) \<and> is_cont c2 \<and> is_cont c3 \<and> utf8_valid r
         | _ \<Rightarrow> False)
      else False)"

definition decode_utf8 :: "string \<Rightarrow> string option" where
  "decode_utf8 bs = (if utf8_valid (map of_char bs) then Some bs else None)"

text \<open>\<open>sep.join(parts)\<close>.\<close>

fun join :: "string \<Rightarrow> string list \<Rightarrow> string" where
  "join sep [] = []"
| "join sep [x] = x"
| "join sep (x # y # ys) = x @ sep @ join sep (y # ys)"

text \<open>
  \<open>shlex.quote\<close>: the empty string becomes \<open>''\<close>; a string of safe characters
  only (\<open>[A-Za-z0-9_@%+=:,./-]\<close>) is returned as it is; any other string is wrapped in
  single quotes, each single quote inside it written \<open>'"'"'\<close>.
\<close>

definition safe_char :: "char \<Rightarrow> bool" where
  "safe_char c =
     (let n = (of_char c :: nat) in
        (48 \<le> n \<and> n \<le> 57) \<or> (65 \<le> n \<and> n \<le> 90) \<or> (97 \<le> n \<and> n \<le> 122)
        \<or> c \<in> set ''_@%+=:,./-'')"

definition shlex_quote :: "string \<Rightarrow> string" where
  "shlex_quote s =
     (if s = [] then [CHR 0x27, CHR 0x27]
      else if list_all safe_char s then s
      else [CHR 0x27]
           @ concat (map (\<lambda>c. if c = CHR 0x27
                                then [CHR 0x27, CHR 0x22, CHR 0x27, CHR 0x22, CHR 0x27]
                                else [c]) s)
           @ [CHR 0x27])"

section \<open>Errors, the environment and the effects\<close>

text \<open>
  Every exception the helpers raise or let through is a value.  The first five are the
  plain \<open>Exception\<close>s that \<open>run_cmd\<close> and \<open>ffprobe\<close> raise themselves, named after
  the error taxonomy of the specification and carrying what their message interpolates:
  \<^item> \<open>CommandFailed cmd out\<close>:
    \<open>Exception(f"Nonzero return status running command {cmd}:\n{out}")\<close>;
  \<^item> \<open>CommandError cmd out\<close>:
    \<open>Exception(f"General error running command {cmd}:\n{out}")\<close>;
  \<^item> \<open>ToolMissing msg\<close>, \<open>FileNotFound msg\<close>, \<open>ProbeEmpty msg\<close>: \<open>Exception(msg)\<close>.
  The others are the exceptions of the Python runtime that pass through uncaught.
\<close>

datatype exn =
    CommandFailed "string list" string
  | CommandError "string list" string
  | ToolMissing string
  | FileNotFound string
  | ProbeEmpty string
  | UnicodeDecodeError
  | OSError string
  | AttributeError
  | TypeError
  | KeyError string
  | ZeroDivisionError
  | OverflowError
  | ValueError
  | JSONDecodeError

text \<open>
  What \<open>subprocess.check_output(cmd, stderr=subprocess.STDOUT)\<close> meets: the process
  ran and exited with a status and the bytes it wrote to stdout and stderr together; the
  program could not be started (an \<open>OSError\<close>, which is not a \<open>SubprocessError\<close>); or
  another \<open>SubprocessError\<close>, with its \<open>output\<close> attribute when it has bytes there.
\<close>

datatype proc_outcome =
    Exited int string
  | OSFailure string
  | OtherSubprocessError "string option"

record world =
  which :: "string \<Rightarrow> string option"
  isfile :: "string \<Rightarrow> bool"
  check_output :: "string list \<Rightarrow> proc_outcome"

text \<open>
  The effects a helper leaves behind: the lines printed on standard output, the
  argument lists handed to \<open>subprocess\<close>, and the messages logged at level ERROR, each
  oldest first.
\<close>

record effects =
  printed :: "string list"
  spawned :: "string list list"
  logged :: "string list"

section \<open>The command runner\<close>

text \<open>
  \<open>run_cmd(cmd, dry_run, verbose)\<close>.  The result is \<open>Inr None\<close> for the bare
  \<open>return\<close> of a dry run, \<open>Inr (Some text)\<close> for the decoded output, \<open>Inl e\<close> for an
  exception.  In the handler of \<open>CalledProcessError\<close> the message is built first, so a
  failure to decode the output there is the exception that leaves the function.
\<close>

definition run_cmd ::
  "world \<Rightarrow> string list \<Rightarrow> bool \<Rightarrow> bool \<Rightarrow> effects \<Rightarrow> (exn + string option) \<times> effects" where
  "run_cmd w cmd dry_run verbose s =
     (let s1 = (if dry_run \<or> verbose
                then s\<lparr>printed := printed s @ [join '' '' (map shlex_quote cmd)]\<rparr>
                else s)
      in if dry_run then (Inr None, s1)
         else
           (let s2 = s1\<lparr>spawned := spawned s1 @ [cmd]\<rparr> in
            case check_output w cmd of
              Exited rc out \<Rightarrow>
                (case decode_utf8 out of
                   None \<Rightarrow> (Inl UnicodeDecodeError, s2)
                 | Some t \<Rightarrow>
                     if rc = 0 then (Inr (Some t), s2) else (Inl (CommandFailed cmd t), s2))
            | OSFailure m \<Rightarrow> (Inl (OSError m), s2)
            | OtherSubprocessError None \<Rightarrow> (Inl AttributeError, s2)
            | OtherSubprocessError (Some out) \<Rightarrow>
                (case decode_utf8 out of
                   None \<Rightarrow> (Inl UnicodeDecodeError, s2)
                 | Some t \<Rightarrow> (Inl (CommandError cmd t), s2))))"

section \<open>Python values\<close>

text \<open>
  A finite \<open>float\<close> is the rational number it denotes.  The values are the ones
  \<open>json\<close> reads and writes: \<open>None\<close>, \<open>bool\<close>, \<open>int\<close>, \<open>float\<close>, \<open>str\<close>,
  \<open>list\<close>, \<open>tuple\<close> and \<open>dict\<close>.  A \<open>dict\<close> is the list of its items in insertion
  order; its keys are strings, as they are in every dict of this module and in every
  dict \<open>json\<close> returns.
\<close>

datatype pyfloat = Finite rat | PosInf | NegInf | NaN

datatype pyval =
    PNone
  | PBool bool
  | PInt int
  | PFloat pyfloat
  | PStr string
  | PList "pyval list"
  | PTuple "pyval list"
  | PDict "(string \<times> pyval) list"

type_synonym pydict = "(string \<times> pyval) list"

text \<open>A JSON document, as the text that \<open>json\<close> reads or writes denotes it.\<close>

datatype json =
    JNull
  | JBool bool
  | JInt int
  | JFloat pyfloat
  | JStr string
  | JArr "json list"
  | JObj "(string \<times> json) list"

text \<open>
  \<open>d[k] = v\<close> on a dict is \<^const>\<open>AList.update\<close>: the value of an existing key is
  replaced where it stands, a new key goes last.  \<open>dict(items)\<close> inserts the items one
  after the other, so of two members of a JSON object with the same name the later
  value wins.
\<close>

definition dict_of :: "(string \<times> 'v) list \<Rightarrow> (string \<times> 'v) list" where
  "dict_of items = foldl (\<lambda>d kv. AList.update (fst kv) (snd kv) d) [] items"

text \<open>The Python value \<open>json.load\<close> and \<open>json.loads\<close> build from a document.\<close>

fun py_of_json :: "json \<Rightarrow> pyval" where
  "py_of_json JNull = PNone"
| "py_of_json (JBool b) = PBool b"
| "py_of_json (JInt i) = PInt i"
| "py_of_json (JFloat f) = PFloat f"
| "py_of_json (JStr s) = PStr s"
| "py_of_json (JArr xs) = PList (map py_of_json xs)"
| "py_of_json (JObj ms) = PDict (dict_of (map (\<lambda>m. (fst m, py_of_json (snd m))) ms))"

section \<open>Operations of the Python runtime\<close>

text \<open>
  \<open>str.strip()\<close> removes the white space of Python at both ends.  On the UTF-8 view
  a text is cut into its characters first (\<open>utf8_chars\<close>: one lead byte and its
  continuation bytes each); \<open>is_space\<close> holds of the encodings of U+0009 to U+000D,
  U+001C to U+0020, U+0085, U+00A0, U+1680, U+2000 to U+200A, U+2028, U+2029, U+202F,
  U+205F and U+3000.
\<close>

definition utf8_width :: "nat \<Rightarrow> nat" where
  "utf8_width b = (if b < 0xC0 then 1 else if b < 0xE0 then 2 else if b < 0xF0 then 3 else 4)"

fun utf8_chars :: "string \<Rightarrow> string list" where
  "utf8_chars [] = []"
| "utf8_chars (c # cs) =
     (c # take (utf8_width (of_char c) - 1) cs)
       # utf8_chars (drop (utf8_width (of_char c) - 1) cs)"

definition is_space :: "string \<Rightarrow> bool" where
  "is_space ch =
     (case map of_char ch :: nat list of
        [a] \<Rightarrow> (9 \<le> a \<and> a \<le> 13) \<or> (28 \<le> a \<and> a \<le> 32)
      | [a, b] \<Rightarrow> a = 0xC2 \<and> (b = 0x85 \<or> b = 0xA0)
      | [a, b, c] \<Rightarrow>
          (a = 0xE1 \<and> b = 0x9A \<and> c = 0x80)
          \<or> (a = 0xE2 \<and> b = 0x80 \<and> ((0x80 \<le> c \<and> c \<le> 0x8A) \<or> c = 0xA8 \<or> c = 0xA9 \<or> c = 0xAF))
          \<or> (a = 0xE2 \<and> b = 0x81 \<and> c = 0x9F)
          \<or> (a = 0xE3 \<and> b = 0x80 \<and> c = 0x80)
      | _ \<Rightarrow> False)"

definition py_strip :: "string \<Rightarrow> string" where
  "py_strip s = concat (rev (dropWhile is_space (rev (dropWhile is_space (utf8_chars s)))))"

text \<open>\<open>pat in s\<close> on two strings: \<open>pat\<close> occurs in \<open>s\<close>, searched from the left.\<close>

fun contains :: "string \<Rightarrow> string \<Rightarrow> bool" where
  "contains pat [] = (pat = [])"
| "contains pat (c # cs) = (prefix pat (c # cs) \<or> contains pat cs)"

text \<open>
  \<open>a / b\<close> on two \<open>int\<close>s: \<open>ZeroDivisionError\<close> for \<open>b = 0\<close>, else the double nearest
  to the quotient (53 significant bits, ties to the even significand, gradual underflow
  below \<open>2 ^ -1022\<close>), and \<open>OverflowError\<close> when that is \<open>2 ^ 1024\<close> or more.
  \<open>round(x)\<close> with one argument: the nearest \<open>int\<close>, a tie going to the even one.
\<close>

function bit_length :: "int \<Rightarrow> int" where
  "bit_length n = (if n \<le> 0 then 0 else 1 + bit_length (n div 2))"
  by pat_completeness auto
termination
  by (relation "measure nat") auto

declare bit_length.simps [simp del]

text \<open>\<open>floor_log2 a b\<close> is the integer part of the binary logarithm of \<open>a / b\<close>.\<close>

definition floor_log2 :: "int \<Rightarrow> int \<Rightarrow> int" where
  "floor_log2 a b =
     (let d = bit_length a - bit_length b
      in if (if 0 \<le> d then b * 2 ^ nat d \<le> a else b \<le> a * 2 ^ nat (- d)) then d else d - 1)"

definition round_half_even :: "rat \<Rightarrow> int" where
  "round_half_even q =
     (let f = \<lfloor>q\<rfloor>; d = q - of_int f
      in if d < 1 / 2 then f else if 1 / 2 < d then f + 1 else if even f then f else f + 1)"

text \<open>\<open>nearest_double a b\<close>, for positive \<open>a\<close> and \<open>b\<close>, is the double nearest to \<open>a / b\<close>.\<close>

definition nearest_double :: "int \<Rightarrow> int \<Rightarrow> rat" where
  "nearest_double a b =
     (let e = max (floor_log2 a b - 52) (- 1074)
      in of_int (round_half_even (of_int a / of_int b / 2 powi e)) * 2 powi e)"

definition py_truediv :: "int \<Rightarrow> int \<Rightarrow> exn + pyfloat" where
  "py_truediv a b =
     (if b = 0 then Inl ZeroDivisionError
      else if a = 0 then Inr (Finite 0)
      else
        (let r = nearest_double \<bar>a\<bar> \<bar>b\<bar>
         in if 2 ^ 1024 \<le> r then Inl OverflowError
            else Inr (Finite (if (a < 0) = (b < 0) then r else - r))))"

fun py_round :: "pyval \<Rightarrow> exn + int" where
  "py_round (PInt i) = Inr i"
| "py_round (PBool b) = Inr (if b then 1 else 0)"
| "py_round (PFloat (Finite q)) = Inr (round_half_even q)"
| "py_round (PFloat PosInf) = Inl OverflowError"
| "py_round (PFloat NegInf) = Inl OverflowError"
| "py_round (PFloat NaN) = Inl ValueError"
| "py_round _ = Inl TypeError"

text \<open>
  Two functions of the Python library are parameters of the model: \<open>json.loads\<close>, as
  the document a text denotes (\<open>None\<close> where it raises \<open>JSONDecodeError\<close>), and the
  expression evaluator behind \<open>eval\<close> for every text that is not of the form
  \<open>int/int\<close>.
\<close>

record library =
  json_loads :: "string \<Rightarrow> json option"
  eval_other :: "string \<Rightarrow> exn + pyval"

text \<open>
  The expressions \<open>eval\<close> is given a meaning for here: a decimal integer literal
  (no leading zero but in \<open>0\<close> itself), with or without a minus sign before it, a slash,
  and a second such literal.  (The limit recent interpreters put on the length of an
  integer literal is not modelled.)  \<open>decimal n\<close> is \<open>str(n)\<close> for an \<open>int\<close>.
\<close>

definition is_digit :: "char \<Rightarrow> bool" where
  "is_digit c = (48 \<le> (of_char c :: nat) \<and> (of_char c :: nat) \<le> 57)"

definition parse_decimal :: "string \<Rightarrow> int option" where
  "parse_decimal s =
     (if s = [] \<or> \<not> list_all is_digit s \<or> (hd s = CHR ''0'' \<and> tl s \<noteq> []) then None
      else Some (foldl (\<lambda>n c. 10 * n + (of_char c - 48)) 0 s))"

definition parse_int_literal :: "string \<Rightarrow> int option" where
  "parse_int_literal s =
     (if s \<noteq> [] \<and> hd s = CHR ''-'' then map_option uminus (parse_decimal (tl s))
      else parse_decimal s)"

definition parse_rational :: "string \<Rightarrow> (int \<times> int) option" where
  "parse_rational s =
     (let l = takeWhile (\<lambda>c. c \<noteq> CHR ''/'') s; r = dropWhile (\<lambda>c. c \<noteq> CHR ''/'') s
      in if r = [] then None
         else (case (parse_int_literal l, parse_int_literal (tl r)) of
                 (Some a, Some b) \<Rightarrow> Some (a, b)
               | _ \<Rightarrow> None))"

definition py_eval :: "library \<Rightarrow> pyval \<Rightarrow> exn + pyval" where
  "py_eval lib v =
     (case v of
        PStr s \<Rightarrow>
          (case parse_rational s of
             Some (a, b) \<Rightarrow> (case py_truediv a b of Inl e \<Rightarrow> Inl e | Inr f \<Rightarrow> Inr (PFloat f))
           | None \<Rightarrow> eval_other lib s)
      | _ \<Rightarrow> Inl TypeError)"




text \<open>
  \<open>v[k]\<close>, \<open>k in v\<close> and \<open>v.get(k, default)\<close> for a string \<open>k\<close>, and the items a
  \<open>for\<close> loop over \<open>v\<close> visits.
\<close>

fun py_getitem :: "pyval \<Rightarrow> string \<Rightarrow> exn + pyval" where
  "py_getitem (PDict d) k = (case map_of d k of None \<Rightarrow> Inl (KeyError k) | Some v \<Rightarrow> Inr v)"
| "py_getitem _ k = Inl TypeError"

fun py_in :: "string \<Rightarrow> pyval \<Rightarrow> exn + bool" where
  "py_in k (PDict d) = Inr (k \<in> set (map fst d))"
| "py_in k (PStr s) = Inr (contains k s)"
| "py_in k (PList xs) = Inr (PStr k \<in> set xs)"
| "py_in k (PTuple xs) = Inr (PStr k \<in> set xs)"
| "py_in k _ = Inl TypeError"

fun py_get :: "pyval \<Rightarrow> string \<Rightarrow> pyval \<Rightarrow> exn + pyval" where
  "py_get (PDict d) k dflt = Inr (case map_of d k of None \<Rightarrow> dflt | Some v \<Rightarrow> v)"
| "py_get _ k dflt = Inl AttributeError"

fun py_iter :: "pyval \<Rightarrow> exn + pyval list" where
  "py_iter (PList xs) = Inr xs"
| "py_iter (PTuple xs) = Inr xs"
| "py_iter (PDict d) = Inr (map (\<lambda>kv. PStr (fst kv)) d)"
| "py_iter (PStr s) = Inr (map PStr (utf8_chars s))"
| "py_iter _ = Inl TypeError"

section \<open>The media prober\<close>

definition needed_init :: pydict where
  "needed_init =
     [(''pix_fmt'', PStr ''unknown''),
      (''bits_per_raw_sample'', PStr ''unknown''),
      (''width'', PStr ''unknown''),
      (''height'', PStr ''unknown''),
      (''avg_frame_rate'', PStr ''unknown''),
      (''codec_name'', PStr ''unknown''),
      (''profile'', PStr ''unknown'')]"

text \<open>
  The inner loop \<open>for n in needed\<close> over the keys \<open>ns\<close> still to visit, for one
  \<open>stream\<close>: lines 117 to 121.
\<close>

fun scan_keys :: "library \<Rightarrow> pyval \<Rightarrow> string list \<Rightarrow> pydict \<Rightarrow> exn + pydict" where
  "scan_keys lib stream [] needed = Inr needed"
| "scan_keys lib stream (n # ns) needed =
     (case py_in n stream of
        Inl e \<Rightarrow> Inl e
      | Inr False \<Rightarrow> scan_keys lib stream ns needed
      | Inr True \<Rightarrow>
          (case py_getitem stream n of
             Inl e \<Rightarrow> Inl e
           | Inr v \<Rightarrow>
               if n = ''avg_frame_rate'' then
                 (case py_eval lib v of
                    Inl e \<Rightarrow> Inl e
                  | Inr x \<Rightarrow>
                      (case py_round x of
                         Inl e \<Rightarrow> Inl e
                       | Inr r \<Rightarrow>
                           scan_keys lib stream ns
                             (AList.update n (PInt r) (AList.update n v needed))))
               else scan_keys lib stream ns (AList.update n v needed)))"

text \<open>The outer loop \<open>for stream in res["streams"]\<close>: line 116.\<close>

fun scan_streams :: "library \<Rightarrow> pyval list \<Rightarrow> pydict \<Rightarrow> exn + pydict" where
  "scan_streams lib [] needed = Inr needed"
| "scan_streams lib (stream # rest) needed =
     (case scan_keys lib stream (map fst needed) needed of
        Inl e \<Rightarrow> Inl e
      | Inr needed' \<Rightarrow> scan_streams lib rest needed')"

text \<open>Sequencing: the first exception ends the run.\<close>

definition and_then :: "exn + 'a \<Rightarrow> ('a \<Rightarrow> exn + 'b) \<Rightarrow> exn + 'b" where
  "and_then m f = (case m of Inl e \<Rightarrow> Inl e | Inr v \<Rightarrow> f v)"

text \<open>Lines 107 to 126: from the parsed output \<open>res\<close> to the mapping returned.\<close>

definition probe_result :: "library \<Rightarrow> pyval \<Rightarrow> exn + pydict" where
  "probe_result lib res =
     and_then (py_getitem res ''streams'') (\<lambda>streams.
     and_then (py_iter streams) (\<lambda>ss.
     and_then (scan_streams lib ss needed_init) (\<lambda>needed.
     and_then (py_get res ''format'' (PDict [])) (\<lambda>fmt.
     and_then (py_get fmt ''bit_rate'' (PInt (- 1))) (\<lambda>bitrate.
     let needed1 = AList.update ''bitrate'' bitrate needed in
     and_then (py_getitem (PDict needed1) ''codec_name'') (\<lambda>codec.
     let needed2 = AList.update ''codec'' codec needed1 in
     and_then (py_get res ''format'' (PDict [])) (\<lambda>fmt'.
     and_then (py_get fmt' ''duration'' (PInt 0)) (\<lambda>duration.
     let needed3 = AList.update ''duration'' duration needed2 in
     and_then (py_getitem (PDict needed3) ''profile'') (\<lambda>profile.
     Inr (AList.update ''video_profile'' profile needed3))))))))))"

definition ffprobe_cmd :: "string \<Rightarrow> string list" where
  "ffprobe_cmd filename =
     [''ffprobe'', ''-loglevel'', ''error'', ''-show_format'', ''-select_streams'', ''v:0'',
      ''-show_streams'', ''-of'', ''json'', filename]"

text \<open>Lines 84 to 105: the two checks, the tool's run and the parse of its output.\<close>

definition probe_output ::
  "library \<Rightarrow> world \<Rightarrow> string \<Rightarrow> effects \<Rightarrow> (exn + pyval) \<times> effects" where
  "probe_output lib w filename s =
     (if which w ''ffprobe'' = None then
        (Inl (ToolMissing ''you need to have ffprobe installed, please read README.md.''), s)
      else if \<not> isfile w filename then
        (Inl (FileNotFound (filename @ '' is not a valid file'')), s)
      else
        (case run_cmd w (ffprobe_cmd filename) False False s of
           (Inl e, s') \<Rightarrow> (Inl e, s')
         | (Inr None, s') \<Rightarrow> (Inl AttributeError, s')
         | (Inr (Some out), s') \<Rightarrow>
             (let res = py_strip out in
              if length res = 0 then
                (Inl (ProbeEmpty
                   (filename @ '' is somehow not valid, so ffprobe could not extract anything'')),
                 s')
              else
                (case json_loads lib res of
                   None \<Rightarrow> (Inl JSONDecodeError, s')
                 | Some doc \<Rightarrow> (Inr (py_of_json doc), s')))))"

definition ffprobe ::
  "library \<Rightarrow> world \<Rightarrow> string \<Rightarrow> effects \<Rightarrow> (exn + pydict) \<times> effects" where
  "ffprobe lib w filename s =
     (case probe_output lib w filename s of
        (Inl e, s') \<Rightarrow> (Inl e, s')
      | (Inr res, s') \<Rightarrow> (probe_result lib res, s'))"

section \<open>The leaf utilities\<close>

text \<open>
  \<open>sys.exit(n)\<close> raises \<open>SystemExit\<close>; left uncaught, the interpreter ends with exit
  status \<open>n\<close>.  \<open>assert_msg\<close> returns \<open>Inl n\<close> then, and \<open>Inr ()\<close> when it returns.
\<close>

definition assert_msg :: "bool \<Rightarrow> string \<Rightarrow> effects \<Rightarrow> (int + unit) \<times> effects" where
  "assert_msg check fail_message s =
     (if \<not> check then (Inl 0, s\<lparr>logged := logged s @ [fail_message]\<rparr>) else (Inr (), s))"

definition assert_file :: "world \<Rightarrow> string \<Rightarrow> string \<Rightarrow> effects \<Rightarrow> (int + unit) \<times> effects" where
  "assert_file w filename fail_message s = assert_msg (isfile w filename) fail_message s"

text \<open>
  \<open>file_open\<close> hands the file to one of three library functions; the model returns the
  call it makes, with the mode it passes.  Whether that call then succeeds (the file is
  there, the library accepts the mode) is the library's matter and not modelled.
\<close>

datatype open_call =
    Bz2Open string string
  | GzipOpen string string
  | BuiltinOpen string string

definition file_open :: "string \<Rightarrow> string \<Rightarrow> open_call" where
  "file_open filename mode =
     (if contains ''bz2'' filename then Bz2Open filename (mode @ ''t'')
      else if contains ''gz'' filename then GzipOpen filename (mode @ ''t'')
      else BuiltinOpen filename mode)"










section \<open>Concrete environments\<close>

text \<open>
  Closed inputs for the instances below: no effects so far; a machine with no
  \<open>ffprobe\<close> and no files; machines whose every command exits with status 1, with a
  readable message or with one byte that is not UTF-8; and a library that parses nothing.
\<close>

definition quiet :: effects where
  "quiet = \<lparr>printed = [], spawned = [], logged = []\<rparr>"

definition bare_world :: world where
  "bare_world =
     \<lparr>which = (\<lambda>_. None), isfile = (\<lambda>_. False),
      check_output = (\<lambda>_. OSFailure ''No such file or directory'')\<rparr>"

definition failing_world :: world where
  "failing_world =
     \<lparr>which = (\<lambda>_. None), isfile = (\<lambda>_. False),
      check_output = (\<lambda>_. Exited 1 ''boom'')\<rparr>"

definition garbled_world :: world where
  "garbled_world =
     \<lparr>which = (\<lambda>_. None), isfile = (\<lambda>_. False),
      check_output = (\<lambda>_. Exited 1 [CHR 0xFF])\<rparr>"

definition tool_only_world :: world where
  "tool_only_world =
     \<lparr>which = (\<lambda>p. if p = ''ffprobe'' then Some ''/usr/bin/ffprobe'' else None),
      isfile = (\<lambda>_. False),
      check_output = (\<lambda>_. Exited 1 ''boom'')\<rparr>"

definition no_library :: library where
  "no_library = \<lparr>json_loads = (\<lambda>_. None), eval_other = (\<lambda>_. Inl ValueError)\<rparr>"











section \<open>Notions the properties are stated with\<close>



section \<open>Properties of the command runner\<close>

text \<open>
  C3, as stated, fails: a dry run is not free of effects, it prints the command.  Here a
  dry run of \<open>rm -rf 'x y'\<close> on a machine without programs returns \<open>None\<close> and leaves
  one printed line behind.
\<close>

theorem run_cmd_dry_run_prints:
  "run_cmd bare_world [''rm'', ''-rf'', ''x y''] True False quiet
     = (Inr None, quiet\<lparr>printed := [''rm -rf '' @ [CHR 0x27] @ ''x y'' @ [CHR 0x27]]\<rparr>)
   \<and> snd (run_cmd bare_world [''rm'', ''-rf'', ''x y''] True False quiet) \<noteq> quiet"
  by (simp add: run_cmd_def quiet_def shlex_quote_def safe_char_def)

text \<open>
  C3, amended: for every argument list, world and \<open>verbose\<close> flag, a dry run returns
  \<open>None\<close>, hands nothing to \<open>subprocess\<close>, logs nothing, and its one effect is the
  line it prints: the arguments quoted by \<open>shlex.quote\<close> and joined by spaces.  The
  world does not enter the result, so it is the same whether the program exists or not.
\<close>

theorem run_cmd_dry_run:
  "run_cmd w cmd True verbose s
     = (Inr None, s\<lparr>printed := printed s @ [join '' '' (map shlex_quote cmd)]\<rparr>)"
  by (simp add: run_cmd_def)

text \<open>
  C2, as stated, fails: when the process exits with a non-zero status and its output is
  not UTF-8, the handler's own \<open>decode\<close> raises, and \<open>UnicodeDecodeError\<close> leaves
  \<open>run_cmd\<close> in place of the exception that carries the command and the output.
\<close>

theorem run_cmd_nonzero_exit_undecodable:
  "check_output garbled_world [''tool''] = Exited 1 [CHR 0xFF]
   \<and> fst (run_cmd garbled_world [''tool''] False False quiet) = Inl UnicodeDecodeError"
  by (simp add: run_cmd_def garbled_world_def decode_utf8_def)

text \<open>
  C2, amended: for every command whose process exits with a non-zero status,
  \<open>run_cmd\<close> (no dry run) never returns normally: it ends in an exception; and when
  the combined output is well-formed UTF-8 that exception is \<open>CommandFailed\<close>, carrying
  the command and the output as they are.
\<close>

theorem run_cmd_nonzero_exit:
  "check_output w cmd = Exited rc out \<Longrightarrow> rc \<noteq> 0 \<Longrightarrow>
     (\<exists>e. fst (run_cmd w cmd False verbose s) = Inl e)
     \<and> (utf8_valid (map of_char out) \<longrightarrow>
          fst (run_cmd w cmd False verbose s) = Inl (CommandFailed cmd out))"
  by (simp add: run_cmd_def decode_utf8_def Let_def split: option.splits)

theorem run_cmd_nonzero_exit_witness:
  "check_output failing_world [''false''] = Exited 1 ''boom''
   \<and> (1::int) \<noteq> 0
   \<and> utf8_valid (map of_char ''boom'')
   \<and> fst (run_cmd failing_world [''false''] False False quiet)
       = Inl (CommandFailed [''false''] ''boom'')"
proof -
  have out: "check_output failing_world [''false''] = Exited 1 ''boom''"
    by (simp add: failing_world_def)
  have rc: "(1::int) \<noteq> 0"
    by simp
  have valid: "utf8_valid (map of_char ''boom'')"
    by simp
  from run_cmd_nonzero_exit [OF out rc, of False quiet] valid
  have "fst (run_cmd failing_world [''false''] False False quiet)
          = Inl (CommandFailed [''false''] ''boom'')"
    by blast
  with out rc valid show ?thesis
    by blast
qed

section \<open>Properties of the leaf utilities\<close>

lemma contains_iff_sublist: "contains pat s \<longleftrightarrow> sublist pat s"
  by (induction s) (simp_all add: sublist_Cons_right)

text \<open>
  C5: for every filename (and mode), \<open>file_open\<close> chooses by substring: a name in which
  \<open>bz2\<close> occurs anywhere goes to \<open>bz2.open\<close>, any other name in which \<open>gz\<close> occurs
  anywhere goes to \<open>gzip.open\<close>, every other name to the builtin \<open>open\<close>; the two
  compressed opens are asked for text mode (the mode with \<open>t\<close> appended).  So
  \<open>gzX.txt\<close>, which has no \<open>.gz\<close> suffix, is opened by \<open>gzip\<close>.
\<close>

theorem file_open_by_substring:
  "file_open filename mode =
     (if sublist ''bz2'' filename then Bz2Open filename (mode @ ''t'')
      else if sublist ''gz'' filename then GzipOpen filename (mode @ ''t'')
      else BuiltinOpen filename mode)
   \<and> file_open ''gzX.txt'' ''r'' = GzipOpen ''gzX.txt'' ''rt''"
  by (simp add: file_open_def contains_iff_sublist [symmetric])

text \<open>
  C8: \<open>assert_msg\<close> with a false condition logs the message as an error and ends the
  process, but with exit status 0, which is the status of success.
\<close>

theorem assert_msg_exit_status:
  "assert_msg False fail_message s = (Inl 0, s\<lparr>logged := logged s @ [fail_message]\<rparr>)"
  by (simp add: assert_msg_def)

section \<open>Properties of the media prober: the two checks\<close>

lemma ffprobe_tool_missing:
  "which w ''ffprobe'' = None \<Longrightarrow>
     ffprobe lib w filename s
       = (Inl (ToolMissing ''you need to have ffprobe installed, please read README.md.''), s)"
  by (simp add: ffprobe_def probe_output_def)

lemma ffprobe_file_missing:
  "which w ''ffprobe'' \<noteq> None \<Longrightarrow> \<not> isfile w filename \<Longrightarrow>
     ffprobe lib w filename s = (Inl (FileNotFound (filename @ '' is not a valid file'')), s)"
  by (simp add: ffprobe_def probe_output_def)

text \<open>
  C4, as stated, fails: on a machine with neither the tool nor the file, the probe of a
  path that is not a file ends in \<open>ToolMissing\<close>, not in \<open>FileNotFound\<close>.
\<close>

theorem ffprobe_missing_file_and_tool:
  "\<not> isfile bare_world ''clip.mp4''
   \<and> ffprobe no_library bare_world ''clip.mp4'' quiet
       = (Inl (ToolMissing ''you need to have ffprobe installed, please read README.md.''),
          quiet)"
  by (simp add: ffprobe_def probe_output_def bare_world_def)

text \<open>
  C4, amended: for every path that is not an existing file, when the tool is found on
  the execution path, the probe fails with \<open>FileNotFound\<close>, whose message names the
  path, and leaves the effects as they were: nothing was spawned; and whenever the tool
  is not found, the probe fails with \<open>ToolMissing\<close>, whose message says to install it
  and points to the README, again with nothing spawned.
\<close>

theorem ffprobe_preconditions:
  "(\<not> isfile w filename \<longrightarrow> which w ''ffprobe'' \<noteq> None \<longrightarrow>
      ffprobe lib w filename s
        = (Inl (FileNotFound (filename @ '' is not a valid file'')), s))
   \<and> (which w ''ffprobe'' = None \<longrightarrow>
      ffprobe lib w filename s
        = (Inl (ToolMissing ''you need to have ffprobe installed, please read README.md.''),
           s))"
  by (simp add: ffprobe_tool_missing ffprobe_file_missing)

theorem ffprobe_preconditions_witness:
  "\<not> isfile tool_only_world ''clip.mp4''
   \<and> which tool_only_world ''ffprobe'' \<noteq> None
   \<and> ffprobe no_library tool_only_world ''clip.mp4'' quiet
       = (Inl (FileNotFound ''clip.mp4 is not a valid file''), quiet)
   \<and> which bare_world ''ffprobe'' = None
   \<and> ffprobe no_library bare_world ''clip.mp4'' quiet
       = (Inl (ToolMissing ''you need to have ffprobe installed, please read README.md.''),
          quiet)"
proof -
  have nofile: "\<not> isfile tool_only_world ''clip.mp4''"
    by (simp add: tool_only_world_def)
  have tool: "which tool_only_world ''ffprobe'' \<noteq> None"
    by (simp add: tool_only_world_def)
  have notool: "which bare_world ''ffprobe'' = None"
    by (simp add: bare_world_def)
  from ffprobe_preconditions [of tool_only_world "''clip.mp4''" no_library quiet] nofile tool
  have first: "ffprobe no_library tool_only_world ''clip.mp4'' quiet
                 = (Inl (FileNotFound ''clip.mp4 is not a valid file''), quiet)"
    by simp
  from ffprobe_preconditions [of bare_world "''clip.mp4''" no_library quiet] notool
  have second: "ffprobe no_library bare_world ''clip.mp4'' quiet
                  = (Inl (ToolMissing ''you need to have ffprobe installed, please read README.md.''),
                     quiet)"
    by simp
  from nofile tool first notool second show ?thesis
    by blast
qed

text \<open>
  C9: for every path, when the tool is not found on the execution path the probe fails
  with the tool-missing error, also when the path is not an existing file: the tool is
  looked for first, and \<open>isfile\<close> does not enter the result.
\<close>

theorem ffprobe_tool_check_first:
  "which w ''ffprobe'' = None \<Longrightarrow>
     fst (ffprobe lib w filename s)
       = Inl (ToolMissing ''you need to have ffprobe installed, please read README.md.'')
     \<and> ffprobe lib w filename s = ffprobe lib (w\<lparr>isfile := other\<rparr>) filename s"
  by (simp add: ffprobe_tool_missing)

theorem ffprobe_tool_check_first_witness:
  "which bare_world ''ffprobe'' = None
   \<and> \<not> isfile bare_world ''clip.mp4''
   \<and> fst (ffprobe no_library bare_world ''clip.mp4'' quiet)
       = Inl (ToolMissing ''you need to have ffprobe installed, please read README.md.'')"
proof -
  have notool: "which bare_world ''ffprobe'' = None"
    by (simp add: bare_world_def)
  have nofile: "\<not> isfile bare_world ''clip.mp4''"
    by (simp add: bare_world_def)
  from ffprobe_tool_check_first [OF notool, of no_library "''clip.mp4''" quiet]
  have "fst (ffprobe no_library bare_world ''clip.mp4'' quiet)
          = Inl (ToolMissing ''you need to have ffprobe installed, please read README.md.'')"
    by blast
  with notool nofile show ?thesis
    by blast
qed

section \<open>Properties of the media prober: the loops\<close>




















section \<open>Properties of the media prober: the frame rate\<close>






































section \<open>Properties of the JSON persistence\<close>










end
